theory Spec2Isabelle
  imports Main
begin

section \<open>The command layer of Compact-Chain (src/cmd/root.go)\<close>

text \<open>
  The repository's only source file is the cobra command layer. Its \<open>start\<close> command
  reads its first positional argument, parses it with \<open>strconv.ParseInt\<close> (dropping the
  error), and hands the number to \<open>startBlockchainNode\<close>, which builds the node's
  configuration from it. This section embeds that path: the parts of Go's \<open>strconv\<close> and
  \<open>fmt\<close> the command calls, the configuration record, and the run function itself.
\<close>

subsection \<open>Go's \<open>strconv.ParseInt\<close>\<close>

text \<open>
  Go returns a value and an error side by side; the caller here keeps the value and drops
  the error, so the model returns the pair. Bytes are read as numbers with \<open>of_char\<close>.
\<close>

datatype num_error = ErrSyntax | ErrRange | ErrBase | ErrBitSize

text \<open>\<open>strconv.IntSize\<close>: the size of \<open>int\<close> in bits, 64 on the 64-bit targets.\<close>

definition IntSize :: nat where
  "IntSize = 64"

definition maxUint64 :: nat where
  "maxUint64 = 2 ^ 64 - 1"

text \<open>\<open>lower(c) = c | ('x' - 'X')\<close>: the byte with bit 5 set.\<close>

definition lower :: "nat \<Rightarrow> nat" where
  "lower c = or c 32"

text \<open>
  The \<open>switch\<close> at the head of \<open>ParseUint\<close>'s loop, for a call whose base is not 0 (an
  underscore is a separator only when the base is 0): the digit a byte stands for, or
  \<open>None\<close> for the \<open>default\<close> branch.
\<close>

definition digitVal :: "nat \<Rightarrow> nat option" where
  "digitVal c =
     (if 48 \<le> c \<and> c \<le> 57 then Some (c - 48)
      else if 97 \<le> lower c \<and> lower c \<le> 122 then Some (lower c - 97 + 10)
      else None)"

text \<open>
  The loop of \<open>ParseUint\<close> over the bytes of the string, \<open>n\<close> the \<open>uint64\<close> accumulator
  (the wrap-around of \<open>n *= base\<close> and \<open>n + d\<close> written out). A bad byte ends the scan
  with \<open>(0, ErrSyntax)\<close>; an overflow ends it with \<open>(maxVal, ErrRange)\<close> at once, before
  the bytes that follow are looked at.
\<close>

fun ParseUint_loop :: "nat \<Rightarrow> nat \<Rightarrow> nat \<Rightarrow> nat \<Rightarrow> string \<Rightarrow> nat \<times> num_error option" where
  "ParseUint_loop base cutoff maxVal n [] = (n, None)"
| "ParseUint_loop base cutoff maxVal n (c # cs) =
     (case digitVal (of_char c) of
        None \<Rightarrow> (0, Some ErrSyntax)
      | Some d \<Rightarrow>
          if d \<ge> base then (0, Some ErrSyntax)
          else if n \<ge> cutoff then (maxVal, Some ErrRange)
          else
            let n' = (n * base) mod 2 ^ 64;
                n1 = (n' + d) mod 2 ^ 64
            in if n1 < n' \<or> n1 > maxVal then (maxVal, Some ErrRange)
               else ParseUint_loop base cutoff maxVal n1 cs)"

text \<open>
  \<open>ParseUint(s, base, bitSize)\<close> for \<open>2 \<le> base \<le> 36\<close>. The prefix detection of base 0
  is not translated (the command passes base 10); any other base is Go's base error.
\<close>

definition ParseUint :: "string \<Rightarrow> nat \<Rightarrow> nat \<Rightarrow> nat \<times> num_error option" where
  "ParseUint s base bitSize =
     (if s = [] then (0, Some ErrSyntax)
      else if \<not> (2 \<le> base \<and> base \<le> 36) then (0, Some ErrBase)
      else
        let bs = (if bitSize = 0 then IntSize else bitSize)
        in if bs > 64 then (0, Some ErrBitSize)
           else ParseUint_loop base (maxUint64 div base + 1) (2 ^ bs - 1) 0 s)"

text \<open>The conversion \<open>int64(x)\<close>: two's complement on 64 bits.\<close>

definition int64 :: "int \<Rightarrow> int" where
  "int64 x = (x + 2 ^ 63) mod 2 ^ 64 - 2 ^ 63"

text \<open>
  \<open>ParseInt(s, base, bitSize)\<close>: the sign is picked off, the rest goes to \<open>ParseUint\<close>. A
  syntax error gives the value 0; a range error gives the nearest value of the size.
\<close>

definition ParseInt :: "string \<Rightarrow> nat \<Rightarrow> nat \<Rightarrow> int \<times> num_error option" where
  "ParseInt s base bitSize =
     (if s = [] then (0, Some ErrSyntax)
      else
        let neg = (hd s = CHR ''-'');
            s1 = (if hd s = CHR ''+'' \<or> hd s = CHR ''-'' then tl s else s)
        in case ParseUint s1 base bitSize of
             (un, err) \<Rightarrow>
               if err \<noteq> None \<and> err \<noteq> Some ErrRange then (0, err)
               else
                 let bs = (if bitSize = 0 then IntSize else bitSize);
                     cutoff = (2::nat) ^ (bs - 1)
                 in if \<not> neg \<and> un \<ge> cutoff then (int64 (int (cutoff - 1)), Some ErrRange)
                    else if neg \<and> un > cutoff then (int64 (- int64 (int cutoff)), Some ErrRange)
                    else
                      let n = int64 (int un)
                      in (if neg then int64 (- n) else n, None))"

subsection \<open>Go's \<open>fmt.Sprint\<close> on an \<open>int64\<close>\<close>

text \<open>The byte \<open>'0' + d\<close> of a decimal digit \<open>d < 10\<close>.\<close>

definition digitChar :: "nat \<Rightarrow> char" where
  "digitChar d = ''0123456789'' ! d"

function natDigits :: "nat \<Rightarrow> string" where
  "natDigits n = (if n < 10 then [digitChar n] else natDigits (n div 10) @ [digitChar (n mod 10)])"
  by pat_completeness auto
termination
  by (relation "measure id") auto

definition Sprint :: "int \<Rightarrow> string" where
  "Sprint i = (if i < 0 then CHR ''-'' # natDigits (nat (- i)) else natDigits (nat i))"

subsection \<open>The node configuration and the \<open>start\<close> command\<close>

text \<open>
  The fields of \<open>config.Config\<close> that \<open>startBlockchainNode\<close> sets. The signer's key is
  kept as the hexadecimal text handed to \<open>util.HexToPrivateKey\<close>, which is not among the
  sources.
\<close>

record Config =
  ConsensusDifficulty :: int
  ConsensusName :: string
  DBDir :: string
  StateDBDir :: string
  MinFee :: int
  RPCPort :: string
  BalanceAlloc :: "(string \<times> int) list"
  P2PPort :: string
  Peers :: "string list"
  BlockTime :: int
  SignerPrivateKey :: string
  Mine :: bool

text \<open>\<open>homePath\<close> is what \<open>os.UserHomeDir\<close> returned when the package was initialised.\<close>

definition dbPath :: "string \<Rightarrow> string" where
  "dbPath homePath = homePath @ ''/.compact-chain/db''"

definition stateDbPath :: "string \<Rightarrow> string" where
  "stateDbPath homePath = homePath @ ''/.compact-chain/statedb''"

text \<open>
  \<open>startBlockchainNode\<close> builds the configuration and passes it to \<open>core.StartBlockchain\<close>;
  the model returns the configuration the node is started with.
\<close>

definition startBlockchainNode :: "string \<Rightarrow> int \<Rightarrow> Config" where
  "startBlockchainNode homePath nodeId =
     \<lparr> ConsensusDifficulty = 20,
       ConsensusName = ''pow'',
       DBDir = dbPath homePath @ Sprint nodeId,
       StateDBDir = stateDbPath homePath @ Sprint nodeId,
       MinFee = 100,
       RPCPort = '':1711'' @ Sprint nodeId,
       BalanceAlloc = [(''0xa52c981eee8687b5e4afd69aa5006548c24d7685'', 1000000000000000000)],
       P2PPort = '':6060'' @ Sprint nodeId,
       Peers = [''localhost:60601'', ''localhost:60602'', ''localhost:60603''],
       BlockTime = 4,
       SignerPrivateKey =
         ''c3fc038a9abc0f483e2e1f8a0b4db676bce3eaebd7d9afc68e1e7e28ca8738a'' @ Sprint nodeId,
       Mine = True \<rparr>"

text \<open>A Go run-time panic: reading index \<open>i\<close> of a slice of length \<open>n \<le> i\<close>.\<close>

datatype panic = IndexOutOfRange nat nat

definition index :: "'a list \<Rightarrow> nat \<Rightarrow> panic + 'a" where
  "index xs i = (if i < length xs then Inr (xs ! i) else Inl (IndexOutOfRange i (length xs)))"

text \<open>
  The \<open>Run\<close> function of \<open>startCmd\<close>, given the positional arguments cobra passes it:
  \<open>nodeID, _ := strconv.ParseInt(args[0], 10, 0)\<close>, then \<open>startBlockchainNode(nodeID)\<close>.
  The result is the panic, or the configuration of the node that is started.
\<close>

definition nodeID :: "string \<Rightarrow> int" where
  "nodeID arg = fst (ParseInt arg 10 0)"

definition startCmd_Run :: "string \<Rightarrow> string list \<Rightarrow> panic + Config" where
  "startCmd_Run homePath args =
     (case index args 0 of
        Inl p \<Rightarrow> Inl p
      | Inr arg \<Rightarrow> Inr (startBlockchainNode homePath (nodeID arg)))"

subsection \<open>Which arguments are numbers\<close>

text \<open>
  The vocabulary for stating how the command treats its argument: a numeric argument is
  an optional sign followed by one or more decimal digits; the leading digits of an
  argument are the digits between the sign and the first other byte, and
  \<open>decimalFrom 0\<close> reads them as a number.
\<close>

definition isDigit :: "char \<Rightarrow> bool" where
  "isDigit c = (48 \<le> (of_char c :: nat) \<and> (of_char c :: nat) \<le> 57)"

definition unsignedPart :: "string \<Rightarrow> string" where
  "unsignedPart s =
     (case s of [] \<Rightarrow> [] | c # cs \<Rightarrow> if c = CHR ''+'' \<or> c = CHR ''-'' then cs else s)"

definition numeric :: "string \<Rightarrow> bool" where
  "numeric s = (unsignedPart s \<noteq> [] \<and> list_all isDigit (unsignedPart s))"

definition decimalFrom :: "nat \<Rightarrow> string \<Rightarrow> nat" where
  "decimalFrom n ds = foldl (\<lambda>m c. m * 10 + (of_char c - 48)) n ds"

definition leadingDigits :: "string \<Rightarrow> string" where
  "leadingDigits s = takeWhile isDigit (unsignedPart s)"

section \<open>The State Store's transaction rule\<close>

text \<open>
  The engine itself (package \<open>core\<close>) is not among the sources. The account rule below
  is written from the specification's data model and State Store contract, so that the
  nonce discipline the specification states can be checked against it.
\<close>

text \<open>
  Modelled from the spec: the Account and Transaction of the data model, which are not
  among the sources. An account is a balance and a nonce, both non-negative integers.
\<close>

type_synonym address = string

record Account =
  balance :: nat
  nonce :: nat

text \<open>The transaction record \<open>{from, to, value, fee, nonce, signature}\<close>.\<close>

record Transaction =
  tx_from :: address
  tx_to :: address
  tx_value :: nat
  tx_fee :: nat
  tx_nonce :: nat
  tx_signature :: string

datatype StateError = InsufficientBalance | NonceMismatch

type_synonym StateStore = "address \<rightharpoonup> Account"

text \<open>
  Modelled from the spec: \<open>getAccount\<close> of the State Store, which is not among the
  sources: \<open>getAccount(address) \<rightarrow> (balance, nonce)\<close>, defaulting to \<open>(0,0)\<close> for unknown
  addresses.
\<close>

definition getAccount :: "StateStore \<Rightarrow> address \<Rightarrow> Account" where
  "getAccount s a = (case s a of None \<Rightarrow> \<lparr>balance = 0, nonce = 0\<rparr> | Some acc \<Rightarrow> acc)"

text \<open>
  Modelled from the spec: \<open>applyTransaction\<close> of the State Store, which is not among the
  sources: \<open>applyTransaction(tx) \<rightarrow> success|fails(InsufficientBalance|NonceMismatch)\<close>. The
  nonce must equal the sender's current account nonce at application time, and value + fee
  must not exceed the sender's balance; the nonce is looked at first, as in the
  specification's scenario where a replayed transaction that the balance no longer covers
  is rejected with NonceMismatch. On success the sender pays value + fee and its nonce
  goes up by one, and the recipient (created on first credit) receives the value.
\<close>

definition applyTransaction :: "StateStore \<Rightarrow> Transaction \<Rightarrow> StateError + StateStore" where
  "applyTransaction s tx =
     (let acc = getAccount s (tx_from tx)
      in if tx_nonce tx \<noteq> nonce acc then Inl NonceMismatch
         else if tx_value tx + tx_fee tx > balance acc then Inl InsufficientBalance
         else
           let s1 = s(tx_from tx \<mapsto>
                      \<lparr>balance = balance acc - (tx_value tx + tx_fee tx), nonce = nonce acc + 1\<rparr>);
               rcv = getAccount s1 (tx_to tx)
           in Inr (s1(tx_to tx \<mapsto> rcv\<lparr>balance := balance rcv + tx_value tx\<rparr>)))"

text \<open>
  Modelled from the spec: the sequential application of a block's transactions, which is
  not among the sources: each transaction is applied to the state the ones before it
  left, and the first failure is the failure of the sequence.
\<close>

fun applyTransactions :: "StateStore \<Rightarrow> Transaction list \<Rightarrow> StateError + StateStore" where
  "applyTransactions s [] = Inr s"
| "applyTransactions s (tx # txs) =
     (case applyTransaction s tx of
        Inl e \<Rightarrow> Inl e
      | Inr s' \<Rightarrow> applyTransactions s' txs)"

text \<open>The transactions of a sequence that one sender sent, in their order.\<close>

definition sentBy :: "address \<Rightarrow> Transaction list \<Rightarrow> Transaction list" where
  "sentBy a txs = filter (\<lambda>t. tx_from t = a) txs"

text \<open>
  The values of the specification's scenario: a sender with balance 1000 and nonce 0, a
  payment of 500 with fee 100 at nonce 0, a second payment at nonce 1, and a payment
  that skips to nonce 2.
\<close>

definition scenarioStore :: StateStore where
  "scenarioStore = Map.empty(''alice'' \<mapsto> \<lparr>balance = 1000, nonce = 0\<rparr>)"

definition payment0 :: Transaction where
  "payment0 = \<lparr>tx_from = ''alice'', tx_to = ''bob'', tx_value = 500, tx_fee = 100,
                tx_nonce = 0, tx_signature = []\<rparr>"

definition payment1 :: Transaction where
  "payment1 = \<lparr>tx_from = ''alice'', tx_to = ''bob'', tx_value = 100, tx_fee = 100,
                tx_nonce = 1, tx_signature = []\<rparr>"

definition skipping :: Transaction where
  "skipping = \<lparr>tx_from = ''alice'', tx_to = ''bob'', tx_value = 1, tx_fee = 100,
                tx_nonce = 2, tx_signature = []\<rparr>"

section \<open>The start command without arguments\<close>

text \<open>
  C9. The run function of the start command reads \<open>args[0]\<close> without looking at the
  length of \<open>args\<close>: called with no positional argument it panics with an index out of
  range (index 0, length 0), whatever the home directory, and starts no node.
\<close>

theorem startCmd_Run_no_args_panics:
  "startCmd_Run homePath [] = Inl (IndexOutOfRange 0 0)"
  by (simp add: startCmd_Run_def index_def)

section \<open>The start command on an argument that is not a number\<close>

lemma decimalFrom_Cons:
  "decimalFrom n (c # cs) = decimalFrom (n * 10 + (of_char c - 48)) cs"
  by (simp add: decimalFrom_def)

lemma decimalFrom_ge: "n \<le> decimalFrom n ds"
proof (induction ds arbitrary: n)
  case Nil
  then show ?case by (simp add: decimalFrom_def)
next
  case (Cons c cs)
  have "n \<le> n * 10 + (of_char c - 48)" by simp
  also have "\<dots> \<le> decimalFrom (n * 10 + (of_char c - 48)) cs" by (rule Cons.IH)
  finally show ?case by (simp add: decimalFrom_Cons)
qed

lemma digitVal_digit: "isDigit c \<Longrightarrow> digitVal (of_char c) = Some (of_char c - 48)"
  by (simp add: isDigit_def digitVal_def)

lemma digitVal_nondigit:
  "\<not> isDigit c \<Longrightarrow>
     digitVal (of_char c) = None \<or> (\<exists>d. digitVal (of_char c) = Some d \<and> 10 \<le> d)"
  by (auto simp add: isDigit_def digitVal_def)

text \<open>In base 10 a byte that is not a decimal digit ends the scan with a syntax error.\<close>

lemma ParseUint_loop_nondigit:
  "\<not> isDigit c \<Longrightarrow> ParseUint_loop 10 cutoff maxVal n (c # rest) = (0, Some ErrSyntax)"
  using digitVal_nondigit [of c] by auto

text \<open>
  Digits whose value stays below \<open>2 ^ 64\<close> are scanned without a range error, so the
  scan reaches the bad byte behind them.
\<close>

lemma ParseUint_loop_digits_then_bad:
  assumes "list_all isDigit ds" and "\<not> isDigit c" and "decimalFrom n ds < 2 ^ 64"
  shows "ParseUint_loop 10 (maxUint64 div 10 + 1) (2 ^ 64 - 1) n (ds @ c # rest)
           = (0, Some ErrSyntax)"
  using assms
proof (induction ds arbitrary: n)
  case Nil
  then show ?case using ParseUint_loop_nondigit by simp
next
  case (Cons d ds)
  let ?v = "of_char d - 48 :: nat"
  have dig: "isDigit d" and rest: "list_all isDigit ds"
    using Cons.prems(1) by simp_all
  have lt: "decimalFrom (n * 10 + ?v) ds < 2 ^ 64"
    using Cons.prems(3) by (simp add: decimalFrom_Cons)
  have "n * 10 + ?v \<le> decimalFrom (n * 10 + ?v) ds"
    by (rule decimalFrom_ge)
  with lt have small: "n * 10 + ?v < 2 ^ 64" by simp
  have v10: "?v < 10" using dig by (auto simp add: isDigit_def)
  have nc: "\<not> n \<ge> maxUint64 div 10 + 1" using small by (simp add: maxUint64_def)
  have m1: "(n * 10) mod 2 ^ 64 = n * 10" using small by simp
  have m2: "(n * 10 + ?v) mod 2 ^ 64 = n * 10 + ?v" using small by simp
  have le: "n * 10 + ?v \<le> 2 ^ 64 - 1" using small by simp
  have "ParseUint_loop 10 (maxUint64 div 10 + 1) (2 ^ 64 - 1) n ((d # ds) @ c # rest)
      = ParseUint_loop 10 (maxUint64 div 10 + 1) (2 ^ 64 - 1) (n * 10 + ?v) (ds @ c # rest)"
    using v10 nc le by (simp add: digitVal_digit [OF dig] m1 m2 Let_def del: power_numeral)
  also have "\<dots> = (0, Some ErrSyntax)"
    using Cons.IH [OF rest Cons.prems(2) lt] .
  finally show ?case .
qed

lemma ParseUint_syntax:
  assumes "\<not> list_all isDigit b \<or> b = []"
    and "decimalFrom 0 (takeWhile isDigit b) < 2 ^ 64"
  shows "ParseUint b 10 0 = (0, Some ErrSyntax)"
proof (cases "b = []")
  case True
  then show ?thesis by (simp add: ParseUint_def)
next
  case False
  with assms(1) have "\<not> list_all isDigit b" by simp
  then have dne: "dropWhile isDigit b \<noteq> []" by (simp add: list_all_iff)
  then obtain c rest where dr: "dropWhile isDigit b = c # rest"
    by (cases "dropWhile isDigit b") auto
  have bad: "\<not> isDigit c" using hd_dropWhile [OF dne] dr by simp
  have split: "b = takeWhile isDigit b @ c # rest"
    using takeWhile_dropWhile_id [of isDigit b] dr by simp
  have all: "list_all isDigit (takeWhile isDigit b)"
    by (simp add: list_all_iff) (meson set_takeWhileD)
  have "ParseUint_loop 10 (maxUint64 div 10 + 1) (2 ^ 64 - 1) 0 (takeWhile isDigit b @ c # rest)
          = (0, Some ErrSyntax)"
    by (rule ParseUint_loop_digits_then_bad [OF all bad assms(2)])
  with split have "ParseUint_loop 10 (maxUint64 div 10 + 1) (2 ^ 64 - 1) 0 b = (0, Some ErrSyntax)"
    by simp
  with False show ?thesis by (simp add: ParseUint_def IntSize_def del: power_numeral)
qed

lemma ParseInt_of_syntax:
  assumes "s \<noteq> []"
    and "ParseUint (if hd s = CHR ''+'' \<or> hd s = CHR ''-'' then tl s else s) base bitSize
           = (0, Some ErrSyntax)"
  shows "ParseInt s base bitSize = (0, Some ErrSyntax)"
  using assms by (simp add: ParseInt_def Let_def)

lemma ParseInt_syntax:
  assumes "\<not> numeric arg" and "decimalFrom 0 (leadingDigits arg) < 2 ^ 64"
  shows "ParseInt arg 10 0 = (0, Some ErrSyntax)"
proof (cases arg)
  case Nil
  then show ?thesis by (simp add: ParseInt_def)
next
  case (Cons c cs)
  have u: "ParseUint (unsignedPart arg) 10 0 = (0, Some ErrSyntax)"
    using assms by (intro ParseUint_syntax) (auto simp add: numeric_def leadingDigits_def)
  have "unsignedPart arg = (if hd arg = CHR ''+'' \<or> hd arg = CHR ''-'' then tl arg else arg)"
    using Cons by (simp add: unsignedPart_def)
  with u have "ParseUint (if hd arg = CHR ''+'' \<or> hd arg = CHR ''-'' then tl arg else arg) 10 0
                 = (0, Some ErrSyntax)"
    by simp
  moreover have "arg \<noteq> []" using Cons by simp
  ultimately show ?thesis by (intro ParseInt_of_syntax)
qed

lemma startCmd_Run_one_arg:
  "startCmd_Run homePath [arg] = Inr (startBlockchainNode homePath (nodeID arg))"
  by (simp add: startCmd_Run_def index_def)

text \<open>
  C10, as the claim states it, fails. The argument \<open>99999999999999999999x\<close> is not a
  number, yet the scan of its digits overflows 64 bits before it reaches the \<open>x\<close>:
  \<open>ParseInt\<close> returns the largest \<open>int64\<close> with a range error, the error is dropped, and
  the node is started with nodeID 9223372036854775807, not 0. So the two non-numeric
  arguments \<open>abc\<close> and \<open>99999999999999999999x\<close> start nodes with different identities.
\<close>

theorem nonnumeric_arg_nodeID_not_zero:
  "\<not> numeric ''99999999999999999999x''
   \<and> nodeID ''99999999999999999999x'' = 9223372036854775807
   \<and> \<not> numeric ''abc''
   \<and> nodeID ''abc'' = 0
   \<and> startCmd_Run ''/home/u'' [''abc''] \<noteq> startCmd_Run ''/home/u'' [''99999999999999999999x'']"
  by (simp add: numeric_def unsignedPart_def isDigit_def startCmd_Run_def index_def
      startBlockchainNode_def Sprint_def digitChar_def nodeID_def ParseInt_def ParseUint_def
      digitVal_def lower_def IntSize_def maxUint64_def int64_def)

text \<open>
  C10, amended. The start command drops the error of parsing its node-id argument, so
  (with a 64-bit \<open>int\<close>) for every non-numeric argument whose leading digits (after an
  optional sign) stay below \<open>2 ^ 64\<close>, parsing reports a syntax error with the value 0 and the node is started with
  nodeID 0 instead of the command failing; two such arguments start nodes with the same
  configuration: database paths \<open>db0\<close> and \<open>statedb0\<close> and ports \<open>:17110\<close> and \<open>:60600\<close>.
\<close>

theorem nonnumeric_arg_starts_node_zero:
  assumes "\<not> numeric a" and "decimalFrom 0 (leadingDigits a) < 2 ^ 64"
    and "\<not> numeric b" and "decimalFrom 0 (leadingDigits b) < 2 ^ 64"
  shows "ParseInt a 10 0 = (0, Some ErrSyntax)
    \<and> nodeID a = 0
    \<and> startCmd_Run homePath [a] = Inr (startBlockchainNode homePath 0)
    \<and> startCmd_Run homePath [a] = startCmd_Run homePath [b]
    \<and> DBDir (startBlockchainNode homePath 0) = homePath @ ''/.compact-chain/db0''
    \<and> StateDBDir (startBlockchainNode homePath 0) = homePath @ ''/.compact-chain/statedb0''
    \<and> RPCPort (startBlockchainNode homePath 0) = '':17110''
    \<and> P2PPort (startBlockchainNode homePath 0) = '':60600''"
proof -
  have pa: "ParseInt a 10 0 = (0, Some ErrSyntax)"
    using assms(1,2) by (rule ParseInt_syntax)
  have pb: "ParseInt b 10 0 = (0, Some ErrSyntax)"
    using assms(3,4) by (rule ParseInt_syntax)
  have na: "nodeID a = 0" and nb: "nodeID b = 0"
    using pa pb by (simp_all add: nodeID_def)
  have cfg: "DBDir (startBlockchainNode homePath 0) = homePath @ ''/.compact-chain/db0''
    \<and> StateDBDir (startBlockchainNode homePath 0) = homePath @ ''/.compact-chain/statedb0''
    \<and> RPCPort (startBlockchainNode homePath 0) = '':17110''
    \<and> P2PPort (startBlockchainNode homePath 0) = '':60600''"
    by (simp add: startBlockchainNode_def dbPath_def stateDbPath_def Sprint_def digitChar_def)
  show ?thesis
    using pa na nb cfg by (simp add: startCmd_Run_one_arg)
qed

text \<open>
  The amended C10 at the arguments \<open>node-one\<close> and \<open>7b\<close>, with the home directory
  \<open>/home/u\<close>.
\<close>

theorem nonnumeric_arg_starts_node_zero_witness:
  "ParseInt ''node-one'' 10 0 = (0, Some ErrSyntax)
   \<and> nodeID ''node-one'' = 0
   \<and> startCmd_Run ''/home/u'' [''node-one''] = Inr (startBlockchainNode ''/home/u'' 0)
   \<and> startCmd_Run ''/home/u'' [''node-one''] = startCmd_Run ''/home/u'' [''7b'']
   \<and> DBDir (startBlockchainNode ''/home/u'' 0) = ''/home/u'' @ ''/.compact-chain/db0''
   \<and> StateDBDir (startBlockchainNode ''/home/u'' 0) = ''/home/u'' @ ''/.compact-chain/statedb0''
   \<and> RPCPort (startBlockchainNode ''/home/u'' 0) = '':17110''
   \<and> P2PPort (startBlockchainNode ''/home/u'' 0) = '':60600''"
proof -
  have a: "\<not> numeric ''node-one''" and a': "decimalFrom 0 (leadingDigits ''node-one'') < 2 ^ 64"
    by (simp_all add: numeric_def unsignedPart_def isDigit_def decimalFrom_def leadingDigits_def)
  have b: "\<not> numeric ''7b''" and b': "decimalFrom 0 (leadingDigits ''7b'') < 2 ^ 64"
    by (simp_all add: numeric_def unsignedPart_def isDigit_def decimalFrom_def leadingDigits_def)
  show ?thesis
    by (rule nonnumeric_arg_starts_node_zero [OF a a' b b'])
qed

section \<open>Transaction nonces\<close>

lemma applyTransaction_mismatch:
  "tx_nonce tx \<noteq> nonce (getAccount s (tx_from tx)) \<Longrightarrow> applyTransaction s tx = Inl NonceMismatch"
  by (simp add: applyTransaction_def)

lemma applyTransaction_nonce_eq:
  "applyTransaction s tx = Inr s' \<Longrightarrow> tx_nonce tx = nonce (getAccount s (tx_from tx))"
  by (auto simp add: applyTransaction_def Let_def split: if_splits)

text \<open>An applied transaction raises its sender's nonce by one and no other nonce.\<close>

lemma applyTransaction_nonce_after:
  "applyTransaction s tx = Inr s' \<Longrightarrow>
     nonce (getAccount s' a) =
       (if a = tx_from tx then Suc (nonce (getAccount s a)) else nonce (getAccount s a))"
  by (auto simp add: applyTransaction_def Let_def getAccount_def split: if_splits)

lemma applyTransactions_append:
  "applyTransactions s (xs @ ys) =
     (case applyTransactions s xs of Inl e \<Rightarrow> Inl e | Inr s1 \<Rightarrow> applyTransactions s1 ys)"
  by (induction xs arbitrary: s) (auto split: sum.splits)

lemma applyTransactions_nonces:
  "applyTransactions s txs = Inr s' \<Longrightarrow>
     map tx_nonce (sentBy a txs)
       = [nonce (getAccount s a) ..< nonce (getAccount s a) + length (sentBy a txs)]
     \<and> nonce (getAccount s' a) = nonce (getAccount s a) + length (sentBy a txs)"
proof (induction txs arbitrary: s)
  case Nil
  then show ?case by (simp add: sentBy_def)
next
  case (Cons tx txs)
  from Cons.prems obtain s1 where
    step: "applyTransaction s tx = Inr s1" and rest: "applyTransactions s1 txs = Inr s'"
    by (auto split: sum.splits)
  note ih = Cons.IH [OF rest]
  show ?case
  proof (cases "tx_from tx = a")
    case True
    let ?n = "nonce (getAccount s a)" and ?k = "length (sentBy a txs)"
    have n1: "nonce (getAccount s1 a) = Suc ?n"
      using applyTransaction_nonce_after [OF step, of a] True by simp
    have eq: "tx_nonce tx = ?n"
      using applyTransaction_nonce_eq [OF step] True by simp
    have tl: "map tx_nonce (sentBy a txs) = [Suc ?n ..< Suc (?n + ?k)]"
      and fin: "nonce (getAccount s' a) = Suc (?n + ?k)"
      using ih n1 by simp_all
    have sb: "sentBy a (tx # txs) = tx # sentBy a txs"
      using True by (simp add: sentBy_def)
    have "[?n ..< Suc (?n + ?k)] = ?n # [Suc ?n ..< Suc (?n + ?k)]"
      by (rule upt_conv_Cons) simp
    then have "map tx_nonce (sentBy a (tx # txs)) = [?n ..< ?n + length (sentBy a (tx # txs))]"
      using tl eq sb by (simp del: upt_Suc)
    moreover have "nonce (getAccount s' a) = ?n + length (sentBy a (tx # txs))"
      using fin sb by simp
    ultimately show ?thesis by blast
  next
    case False
    have "nonce (getAccount s1 a) = nonce (getAccount s a)"
      using applyTransaction_nonce_after [OF step, of a] False by simp
    then show ?thesis using ih False by (simp add: sentBy_def)
  qed
qed

text \<open>
  C4. A transaction whose nonce is not exactly its sender's current account nonce is
  rejected with NonceMismatch; this holds wherever it stands in a sequence: when the
  transactions before it applied and its nonce differs from the sender's nonce in the
  state they left, the whole sequence is rejected with NonceMismatch. Consequently, when
  a sequence applies, the nonces of each sender's transactions are the sender's starting
  nonce, the next one, and so on with no gap, and the sender's nonce ends right after
  them.
\<close>

theorem nonce_mismatch_always_rejected:
  "(tx_nonce tx \<noteq> nonce (getAccount s (tx_from tx)) \<longrightarrow>
      applyTransaction s tx = Inl NonceMismatch)
   \<and> (applyTransactions s pre = Inr s1 \<and> tx_nonce tx \<noteq> nonce (getAccount s1 (tx_from tx)) \<longrightarrow>
      applyTransactions s (pre @ tx # post) = Inl NonceMismatch)
   \<and> (applyTransactions s txs = Inr s' \<longrightarrow>
      map tx_nonce (sentBy a txs)
        = [nonce (getAccount s a) ..< nonce (getAccount s a) + length (sentBy a txs)]
      \<and> nonce (getAccount s' a) = nonce (getAccount s a) + length (sentBy a txs))"
proof (intro conjI impI)
  assume "tx_nonce tx \<noteq> nonce (getAccount s (tx_from tx))"
  then show "applyTransaction s tx = Inl NonceMismatch"
    by (rule applyTransaction_mismatch)
next
  assume h: "applyTransactions s pre = Inr s1 \<and> tx_nonce tx \<noteq> nonce (getAccount s1 (tx_from tx))"
  then have "applyTransaction s1 tx = Inl NonceMismatch"
    by (simp add: applyTransaction_mismatch)
  with h show "applyTransactions s (pre @ tx # post) = Inl NonceMismatch"
    by (simp add: applyTransactions_append)
next
  assume h: "applyTransactions s txs = Inr s'"
  show "map tx_nonce (sentBy a txs)
        = [nonce (getAccount s a) ..< nonce (getAccount s a) + length (sentBy a txs)]"
    using applyTransactions_nonces [OF h] by simp
  show "nonce (getAccount s' a) = nonce (getAccount s a) + length (sentBy a txs)"
    using applyTransactions_nonces [OF h] by simp
qed

lemma scenario_first_payment:
  "applyTransactions scenarioStore [payment0]
     = Inr (scenarioStore(''alice'' \<mapsto> \<lparr>balance = 400, nonce = 1\<rparr>,
                          ''bob'' \<mapsto> \<lparr>balance = 500, nonce = 0\<rparr>))"
  by (simp add: scenarioStore_def payment0_def applyTransaction_def getAccount_def)

lemma scenario_both_payments:
  "applyTransactions scenarioStore [payment0, payment1]
     = Inr (scenarioStore(''alice'' \<mapsto> \<lparr>balance = 200, nonce = 2\<rparr>,
                          ''bob'' \<mapsto> \<lparr>balance = 600, nonce = 0\<rparr>))"
  by (simp add: scenarioStore_def payment0_def payment1_def applyTransaction_def getAccount_def
      numeral_2_eq_2)

text \<open>
  C4 on the scenario: the payment that skips to nonce 2 is rejected at once and after the
  first payment, and the two payments that apply carry the nonces 0 and 1.
\<close>

theorem nonce_mismatch_always_rejected_witness:
  "applyTransaction scenarioStore skipping = Inl NonceMismatch
   \<and> applyTransactions scenarioStore ([payment0] @ skipping # [payment1]) = Inl NonceMismatch
   \<and> map tx_nonce (sentBy ''alice'' [payment0, payment1]) = [0, 1]
   \<and> nonce (getAccount (scenarioStore(''alice'' \<mapsto> \<lparr>balance = 200, nonce = 2\<rparr>,
                                       ''bob'' \<mapsto> \<lparr>balance = 600, nonce = 0\<rparr>)) ''alice'') = 2"
proof -
  let ?s1 = "scenarioStore(''alice'' \<mapsto> \<lparr>balance = 400, nonce = 1\<rparr>,
                           ''bob'' \<mapsto> \<lparr>balance = 500, nonce = 0\<rparr>)"
  let ?s2 = "scenarioStore(''alice'' \<mapsto> \<lparr>balance = 200, nonce = 2\<rparr>,
                           ''bob'' \<mapsto> \<lparr>balance = 600, nonce = 0\<rparr>)"
  have h1: "tx_nonce skipping \<noteq> nonce (getAccount scenarioStore (tx_from skipping))"
    by (simp add: skipping_def scenarioStore_def getAccount_def)
  have h2: "applyTransactions scenarioStore [payment0] = Inr ?s1
      \<and> tx_nonce skipping \<noteq> nonce (getAccount ?s1 (tx_from skipping))"
    using scenario_first_payment by (simp add: skipping_def getAccount_def)
  have h3: "applyTransactions scenarioStore [payment0, payment1] = Inr ?s2"
    by (rule scenario_both_payments)
  have n0: "nonce (getAccount scenarioStore ''alice'') = 0"
    by (simp add: scenarioStore_def getAccount_def)
  have k: "length (sentBy ''alice'' [payment0, payment1]) = 2"
    by (simp add: sentBy_def payment0_def payment1_def)
  have up: "[0 ..< 2] = [0, 1::nat]"
    by (simp add: numeral_2_eq_2)
  note t = nonce_mismatch_always_rejected
      [of skipping scenarioStore "[payment0]" ?s1 "[payment1]" "[payment0, payment1]" ?s2 "''alice''"]
  have c1: "applyTransaction scenarioStore skipping = Inl NonceMismatch"
    using t h1 by blast
  have c2: "applyTransactions scenarioStore ([payment0] @ skipping # [payment1]) = Inl NonceMismatch"
    using t h2 by blast
  have c3: "map tx_nonce (sentBy ''alice'' [payment0, payment1]) = [0, 1]"
    using t h3 n0 k up by simp
  have c4: "nonce (getAccount ?s2 ''alice'') = 2"
    using t h3 n0 k by simp
  show ?thesis
    using c1 c2 c3 c4 by blast
qed

end
